theory Spec2Isabelle
  imports Main "HOL-Library.Sublist" "HOL-Library.Multiset"
begin

section \<open>The knowledge-sync daemon (\<^verbatim>\<open>src/sync.py\<close>)\<close>

text \<open>
  The program mirrors a git repository into a local directory and pushes every file with
  an allowed extension to a knowledge service, forever. Everything it does goes through
  the operating system, so the embedding threads an explicit \<open>world\<close> (the file system
  and the list of effects issued so far) through every function, returns exceptions as
  values (\<open>Inl\<close>), and takes the behaviour of the collaborators the program cannot
  control (external processes, the HTTP service, \<^verbatim>\<open>urlparse\<close>) as parameters.
\<close>

subsection \<open>Python strings\<close>

type_synonym path = string

text \<open>\<^verbatim>\<open>s.split(',')\<close>: never returns the empty list (\<^verbatim>\<open>''.split(',') == ['']\<close>).\<close>

fun split_on :: "char \<Rightarrow> string \<Rightarrow> string list" where
  "split_on c [] = [[]]"
| "split_on c (x # xs) =
     (if x = c then [] # split_on c xs
      else (case split_on c xs of
              [] \<Rightarrow> [[x]]
            | w # ws \<Rightarrow> (x # w) # ws))"

text \<open>\<^verbatim>\<open>s.endswith(t)\<close>.\<close>

definition endswith :: "string \<Rightarrow> string \<Rightarrow> bool" where
  "endswith s t = (length t \<le> length s \<and> drop (length s - length t) s = t)"

text \<open>\<^verbatim>\<open>t in s\<close> on strings: \<open>t\<close> occurs in \<open>s\<close> as a contiguous block.\<close>

fun startswith :: "string \<Rightarrow> string \<Rightarrow> bool" where
  "startswith s [] = True"
| "startswith [] (y # ys) = False"
| "startswith (x # xs) (y # ys) = (x = y \<and> startswith xs ys)"

fun contains :: "string \<Rightarrow> string \<Rightarrow> bool" where
  "contains [] t = (t = [])"
| "contains (x # xs) t = (startswith (x # xs) t \<or> contains xs t)"

text \<open>
  \<^verbatim>\<open>str.isspace\<close> on the code points below 256 and \<^verbatim>\<open>str.strip()\<close>.
\<close>

definition isspace :: "char \<Rightarrow> bool" where
  "isspace c =
     (let n = (of_char c :: nat)
      in (9 \<le> n \<and> n \<le> 13) \<or> (28 \<le> n \<and> n \<le> 32) \<or> n = 133 \<or> n = 160)"

definition strip :: "string \<Rightarrow> string" where
  "strip s = rev (dropWhile isspace (rev (dropWhile isspace s)))"

text \<open>Truthiness of an optional string (\<^verbatim>\<open>None\<close> and \<^verbatim>\<open>''\<close> are falsy).\<close>

fun truthy :: "string option \<Rightarrow> bool" where
  "truthy None = False"
| "truthy (Some s) = (s \<noteq> [])"

text \<open>\<^verbatim>\<open>f"{x}"\<close> of an optional string: \<^verbatim>\<open>None\<close> prints as \<^verbatim>\<open>None\<close>.\<close>

fun fmt :: "string option \<Rightarrow> string" where
  "fmt None = ''None''"
| "fmt (Some s) = s"

text \<open>\<^verbatim>\<open>os.path.join(a, b)\<close> of \<^verbatim>\<open>posixpath\<close>, for two arguments.\<close>

definition path_join :: "path \<Rightarrow> path \<Rightarrow> path" where
  "path_join a b =
     (if startswith b ''/'' then b
      else if a = [] \<or> endswith a ''/'' then a @ b
      else a @ ''/'' @ b)"

subsection \<open>Configuration (module-level constants, lines 17-29)\<close>

record config =
  GITHUB_TOKEN :: "string option"
  GITHUB_USERNAME :: "string option"
  REPO_URL :: "string option"
  SYNC_DIRECTORY :: path
  WEBUI_URL :: string
  TOKEN :: string
  KNOWLEDGE_ID :: string
  SYNC_INTERVAL :: int
  ALLOWED_EXTENSIONS :: "string list"

text \<open>
  \<^verbatim>\<open>os.getenv(key, default)\<close> and line 29:
  \<^verbatim>\<open>ALLOWED_EXTENSIONS = os.getenv("ALLOWED_EXTENSIONS", ".md,.txt").split(',')\<close>.
\<close>

fun getenv :: "string option \<Rightarrow> string \<Rightarrow> string" where
  "getenv None d = d"
| "getenv (Some v) d = v"

definition allowed_extensions_of_env :: "string option \<Rightarrow> string list" where
  "allowed_extensions_of_env v = split_on (CHR '','') (getenv v ''.md,.txt'')"

subsection \<open>Extension Filter (lines 132-134)\<close>

text \<open>\<^verbatim>\<open>any(filename.endswith(ext) for ext in ALLOWED_EXTENSIONS)\<close>\<close>

fun any_endswith :: "string \<Rightarrow> string list \<Rightarrow> bool" where
  "any_endswith filename [] = False"
| "any_endswith filename (ext # exts) =
     (if endswith filename ext then True else any_endswith filename exts)"

definition is_allowed_extension :: "config \<Rightarrow> string \<Rightarrow> bool" where
  "is_allowed_extension cfg filename = any_endswith filename (ALLOWED_EXTENSIONS cfg)"

subsection \<open>Exceptions\<close>

text \<open>
  The exception classes the program can meet. All of them derive from \<^verbatim>\<open>Exception\<close>.
  \<open>RequestError\<close> stands for the \<^verbatim>\<open>requests.exceptions.RequestException\<close> subclasses
  raised by the transport (\<^verbatim>\<open>ConnectionError\<close>, \<^verbatim>\<open>Timeout\<close>, \<^verbatim>\<open>MissingSchema\<close>, ...),
  \<open>HTTPError\<close> is what \<^verbatim>\<open>raise_for_status\<close> raises. A body that is not JSON makes
  \<^verbatim>\<open>response.json()\<close> raise \<^verbatim>\<open>requests.exceptions.JSONDecodeError\<close>, a
  \<^verbatim>\<open>RequestException\<close>, from requests 2.27 on (\<open>RequestsJSONDecodeError\<close>), and the
  plain \<^verbatim>\<open>json.JSONDecodeError\<close>, a \<^verbatim>\<open>ValueError\<close>, before (\<open>JSONDecodeError\<close>).
\<close>

datatype exn =
    CalledProcessError string int "string option"
  | FileNotFoundError path
  | FileExistsError path
  | NotADirectoryError path
  | IsADirectoryError path
  | PermissionError path
  | OSError string
  | ValueError string
  | KeyError string
  | TypeError string
  | RequestError string
  | HTTPError int
  | RequestsJSONDecodeError
  | JSONDecodeError

fun is_Exception :: "exn \<Rightarrow> bool" where
  "is_Exception e = True"

fun is_CalledProcessError :: "exn \<Rightarrow> bool" where
  "is_CalledProcessError (CalledProcessError c rc se) = True"
| "is_CalledProcessError e = False"

fun is_PermissionError :: "exn \<Rightarrow> bool" where
  "is_PermissionError (PermissionError p) = True"
| "is_PermissionError e = False"

fun is_RequestException :: "exn \<Rightarrow> bool" where
  "is_RequestException (RequestError m) = True"
| "is_RequestException (HTTPError s) = True"
| "is_RequestException RequestsJSONDecodeError = True"
| "is_RequestException e = False"

text \<open>\<^verbatim>\<open>e.stderr\<close> of a \<^verbatim>\<open>CalledProcessError\<close>.\<close>

fun exn_stderr :: "exn \<Rightarrow> string option" where
  "exn_stderr (CalledProcessError c rc se) = se"
| "exn_stderr e = None"

subsection \<open>The world: file system, effects, collaborators\<close>

text \<open>
  The file system is a tree; the entries of a directory are listed in the order in which
  \<^verbatim>\<open>os.scandir\<close> returns them. A path is resolved from the root of the tree component
  by component, skipping empty and \<^verbatim>\<open>.\<close> components; symbolic links and \<^verbatim>\<open>..\<close> are not
  interpreted.
\<close>

datatype node = File string | Dir "(string \<times> node) list"

datatype json =
    JNull | JBool bool | JNum int | JStr string
  | JArr "json list" | JObj "(string \<times> json) list"

datatype body = Multipart path string | JsonBody json

datatype request = Post string "(string \<times> string) list" body

text \<open>
  A response of the service: its status code and its body, which parses as JSON or does
  not (\<open>None\<close>).
\<close>

datatype response = Response int "json option"

fun status_code :: "response \<Rightarrow> int" where
  "status_code (Response st b) = st"

fun parsed :: "response \<Rightarrow> json option" where
  "parsed (Response st b) = b"

datatype level = INFO | WARNING | ERROR

datatype log_arg = AStr string | AInt int | AExn exn | AJson json

text \<open>
  Every effect the program issues, in order. A log record keeps the f-string's text with
  \<^verbatim>\<open>{}\<close> for each interpolated value, and the values.
\<close>

datatype event =
    Log level string "log_arg list"
  | Makedirs path
  | Exec string "path option" bool
  | Http request
  | Sleep int

record world =
  fs :: node
  trace :: "event list"

text \<open>What an external process does: it cannot be started, or it exits with a code,
  having written to standard output and standard error.\<close>

datatype proc = SpawnFailed exn | Exited int string string

text \<open>
  The collaborators. Each may answer differently as time goes by: it sees the effects
  issued so far. An external process may change the file system in any way. The service
  answers a request with a response, or the transport fails (\<open>Inl\<close>, with the message of
  the \<^verbatim>\<open>RequestException\<close>). \<open>makedirs_fault\<close> and \<open>open_denied\<close> are the failures the tree
  does not show (permissions, I/O errors). \<open>legacy_json_error\<close> says that the installed
  requests is older than 2.27.
\<close>

record env =
  shell :: "event list \<Rightarrow> string \<Rightarrow> path option \<Rightarrow> node \<Rightarrow> proc \<times> node"
  http :: "event list \<Rightarrow> request \<Rightarrow> string + response"
  urlparse :: "string \<Rightarrow> exn + (string \<times> string)"
  makedirs_fault :: "event list \<Rightarrow> path \<Rightarrow> exn option"
  open_denied :: "event list \<Rightarrow> path \<Rightarrow> bool"
  legacy_json_error :: bool

definition emit :: "event \<Rightarrow> world \<Rightarrow> world" where
  "emit e w = w\<lparr>trace := trace w @ [e]\<rparr>"

subsection \<open>Command Runner (lines 31-53)\<close>

datatype completed_process = CompletedProcess int "string option" "string option"

fun stdout :: "completed_process \<Rightarrow> string option" where
  "stdout (CompletedProcess rc out err) = out"

text \<open>
  \<^verbatim>\<open>subprocess.run(command, shell=True, check=True, capture_output=c, text=True, cwd=cwd)\<close>:
  the streams are kept only when captured, and a non-zero exit code raises.
\<close>

definition subprocess_run ::
  "env \<Rightarrow> string \<Rightarrow> path option \<Rightarrow> bool \<Rightarrow> world \<Rightarrow> (exn + completed_process) \<times> world" where
  "subprocess_run E command cwd capture_output w =
     (let (p, fs') = shell E (trace w) command cwd (fs w);
          w' = emit (Exec command cwd capture_output) (w\<lparr>fs := fs'\<rparr>)
      in case p of
           SpawnFailed e \<Rightarrow> (Inl e, w')
         | Exited rc out err \<Rightarrow>
             (let so = (if capture_output then Some out else None);
                  se = (if capture_output then Some err else None)
              in if rc \<noteq> 0 then (Inl (CalledProcessError command rc se), w')
                 else (Inr (CompletedProcess rc so se), w')))"

definition run_command ::
  "env \<Rightarrow> string \<Rightarrow> path option \<Rightarrow> string option \<Rightarrow> bool \<Rightarrow> world \<Rightarrow> (exn + string) \<times> world" where
  "run_command E command cwd error_message hide_output w =
     (case subprocess_run E command cwd hide_output w of
        (Inr result, w') \<Rightarrow>
          (Inr (if truthy (stdout result) \<and> \<not> hide_output
                then strip (the (stdout result)) else []), w')
      | (Inl e, w') \<Rightarrow>
          if is_CalledProcessError e then
            (let error_msg = (if truthy error_message then the error_message
                              else ''Command failed: '' @ command)
             in (Inl e, emit (Log ERROR ''{}. Error: {}''
                               [AStr error_msg, AStr (fmt (exn_stderr e))]) w'))
          else (Inl e, w'))"

subsection \<open>Operating-system calls on the file system\<close>

definition components :: "path \<Rightarrow> string list" where
  "components p = filter (\<lambda>c. c \<noteq> [] \<and> c \<noteq> ''.'') (split_on (CHR ''/'') p)"

fun fs_lookup :: "node \<Rightarrow> string list \<Rightarrow> node option" where
  "fs_lookup n [] = Some n"
| "fs_lookup (File c) (x # xs) = None"
| "fs_lookup (Dir es) (x # xs) =
     (case map_of es x of None \<Rightarrow> None | Some n \<Rightarrow> fs_lookup n xs)"

text \<open>The node a path names; the empty path names nothing.\<close>

definition resolve :: "node \<Rightarrow> path \<Rightarrow> node option" where
  "resolve root p = (if p = [] then None else fs_lookup root (components p))"

text \<open>\<^verbatim>\<open>os.path.exists(p)\<close>\<close>

definition path_exists :: "node \<Rightarrow> path \<Rightarrow> bool" where
  "path_exists root p = (resolve root p \<noteq> None)"

fun new_dirs :: "string list \<Rightarrow> node" where
  "new_dirs [] = Dir []"
| "new_dirs (x # xs) = Dir [(x, new_dirs xs)]"

fun replace_entry :: "string \<Rightarrow> node \<Rightarrow> (string \<times> node) list \<Rightarrow> (string \<times> node) list" where
  "replace_entry x n [] = []"
| "replace_entry x n ((y, m) # es) =
     (if y = x then (y, n) # es else (y, m) # replace_entry x n es)"

text \<open>Creating the missing directories along a path; \<open>None\<close> when a file is in the way.\<close>

fun mkdirs :: "string list \<Rightarrow> node \<Rightarrow> node option" where
  "mkdirs [] (Dir es) = Some (Dir es)"
| "mkdirs [] (File c) = None"
| "mkdirs (x # xs) (File c) = None"
| "mkdirs (x # xs) (Dir es) =
     (case map_of es x of
        None \<Rightarrow> Some (Dir (es @ [(x, new_dirs xs)]))
      | Some n \<Rightarrow>
          (case mkdirs xs n of
             None \<Rightarrow> None
           | Some n' \<Rightarrow> Some (Dir (replace_entry x n' es))))"

text \<open>
  \<^verbatim>\<open>os.makedirs(p, exist_ok=True)\<close>: nothing happens when \<open>p\<close> is a directory already;
  otherwise the missing directories are created, unless something fails.
\<close>

definition os_makedirs :: "env \<Rightarrow> path \<Rightarrow> world \<Rightarrow> (exn + unit) \<times> world" where
  "os_makedirs E p w =
     (let w' = emit (Makedirs p) w
      in if p = [] then (Inl (FileNotFoundError p), w')
         else (case fs_lookup (fs w) (components p) of
                 Some (Dir es) \<Rightarrow> (Inr (), w')
               | Some (File c) \<Rightarrow> (Inl (FileExistsError p), w')
               | None \<Rightarrow>
                   (case makedirs_fault E (trace w) p of
                      Some e \<Rightarrow> (Inl e, w')
                    | None \<Rightarrow>
                        (case mkdirs (components p) (fs w) of
                           None \<Rightarrow> (Inl (NotADirectoryError p), w')
                         | Some n \<Rightarrow> (Inr (), w'\<lparr>fs := n\<rparr>)))))"

text \<open>
  \<^verbatim>\<open>os.walk(top)\<close>: top-down, one triple (directory, sub-directory names, file names) for
  each directory; a top that is not a directory yields nothing.
\<close>

fun walk :: "path \<Rightarrow> node \<Rightarrow> (path \<times> string list \<times> string list) list" where
  "walk topdir (File c) = []"
| "walk topdir (Dir es) =
     (topdir, [x. (x, Dir ds) \<leftarrow> es], [x. (x, File c) \<leftarrow> es])
       # concat (map (\<lambda>(x, n). walk (path_join topdir x) n) es)"

definition os_walk :: "node \<Rightarrow> path \<Rightarrow> (path \<times> string list \<times> string list) list" where
  "os_walk root topdir =
     (case resolve root topdir of None \<Rightarrow> [] | Some n \<Rightarrow> walk topdir n)"

text \<open>\<^verbatim>\<open>open(p, 'rb')\<close> and reading the file.\<close>

definition os_open :: "env \<Rightarrow> path \<Rightarrow> world \<Rightarrow> exn + string" where
  "os_open E p w =
     (if open_denied E (trace w) p then Inl (PermissionError p)
      else (case resolve (fs w) p of
              None \<Rightarrow> Inl (FileNotFoundError p)
            | Some (Dir es) \<Rightarrow> Inl (IsADirectoryError p)
            | Some (File c) \<Rightarrow> Inr c))"

subsection \<open>Repository Mirror (lines 55-130)\<close>

definition dq :: string where
  "dq = [CHR 0x22]"

definition configure_git_credentials :: "env \<Rightarrow> config \<Rightarrow> world \<Rightarrow> (exn + bool) \<times> world" where
  "configure_git_credentials E cfg w =
     (if \<not> truthy (GITHUB_USERNAME cfg) \<or> \<not> truthy (GITHUB_TOKEN cfg) then
        (Inr False,
         emit (Log WARNING ''GitHub credentials not fully configured. Skipping git configuration.'' []) w)
      else
        (let r =
           (case run_command E
                   (''git config --global user.name '' @ dq @ fmt (GITHUB_USERNAME cfg) @ dq)
                   None None True w of
              (Inl e, w1) \<Rightarrow> (Inl e, w1)
            | (Inr out1, w1) \<Rightarrow>
                (case run_command E
                        (''git config --global user.email '' @ dq @ fmt (GITHUB_USERNAME cfg)
                           @ ''@users.noreply.github.com'' @ dq)
                        None None True w1 of
                   (Inl e, w2) \<Rightarrow> (Inl e, w2)
                 | (Inr out2, w2) \<Rightarrow>
                     (Inr True, emit (Log INFO ''Git credentials configured'' []) w2)))
         in case r of
              (Inl e, w') \<Rightarrow>
                if is_Exception e then
                  (Inr False, emit (Log ERROR ''Failed to configure git credentials: {}'' [AExn e]) w')
                else (Inl e, w')
            | (Inr b, w') \<Rightarrow> (Inr b, w')))"

definition get_authenticated_repo_url :: "env \<Rightarrow> config \<Rightarrow> exn + string" where
  "get_authenticated_repo_url E cfg =
     (if \<not> truthy (REPO_URL cfg) then Inl (ValueError ''REPO_URL must be set in .env'')
      else if truthy (GITHUB_TOKEN cfg) then
        (case urlparse E (fmt (REPO_URL cfg)) of
           Inl e \<Rightarrow> Inl e
         | Inr (netloc, upath) \<Rightarrow>
             Inr (''https://'' @ fmt (GITHUB_USERNAME cfg) @ '':'' @ fmt (GITHUB_TOKEN cfg)
                    @ ''@'' @ netloc @ upath))
      else Inr (fmt (REPO_URL cfg)))"

definition ensure_directory :: "env \<Rightarrow> path \<Rightarrow> world \<Rightarrow> (exn + unit) \<times> world" where
  "ensure_directory E directory w =
     (case os_makedirs E directory w of
        (Inr u, w') \<Rightarrow>
          (Inr (), emit (Log INFO ''Ensured directory exists: {}'' [AStr directory]) w')
      | (Inl e, w') \<Rightarrow>
          if is_PermissionError e then
            (Inl e, emit (Log ERROR ''Permission denied creating directory: {}'' [AStr directory]) w')
          else if is_Exception e then
            (Inl e, emit (Log ERROR ''Error creating directory {}: {}'' [AStr directory, AExn e]) w')
          else (Inl e, w'))"

definition clone_or_pull_repository :: "env \<Rightarrow> config \<Rightarrow> world \<Rightarrow> (exn + bool) \<times> world" where
  "clone_or_pull_repository E cfg w =
     (if \<not> truthy (REPO_URL cfg) then
        (Inr False,
         emit (Log WARNING ''No repository URL provided. Skipping repository sync.'' []) w)
      else
        (case configure_git_credentials E cfg w of
           (Inl e, w1) \<Rightarrow> (Inl e, w1)
         | (Inr configured, w1) \<Rightarrow>
             (case ensure_directory E (SYNC_DIRECTORY cfg) w1 of
                (Inl e, w2) \<Rightarrow> (Inl e, w2)
              | (Inr u, w2) \<Rightarrow>
                  (let r =
                     (case get_authenticated_repo_url E cfg of
                        Inl e \<Rightarrow> (Inl e, w2)
                      | Inr authenticated_url \<Rightarrow>
                          if path_exists (fs w2) (path_join (SYNC_DIRECTORY cfg) ''.git'') then
                            (case run_command E ''git pull'' (Some (SYNC_DIRECTORY cfg))
                                    (Some ''Failed to pull repository'') False w2 of
                               (Inl e, w3) \<Rightarrow> (Inl e, w3)
                             | (Inr out, w3) \<Rightarrow>
                                 (Inr True,
                                  emit (Log INFO ''Pulled latest changes from repository'' []) w3))
                          else
                            (case run_command E (''git clone '' @ authenticated_url @ '' .'')
                                    (Some (SYNC_DIRECTORY cfg))
                                    (Some ''Failed to clone repository'') False w2 of
                               (Inl e, w3) \<Rightarrow> (Inl e, w3)
                             | (Inr out, w3) \<Rightarrow>
                                 (Inr True, emit (Log INFO ''Cloned repository'' []) w3)))
                   in case r of
                        (Inl e, w') \<Rightarrow>
                          if is_Exception e then
                            (Inr False, emit (Log ERROR ''Repository sync failed: {}'' [AExn e]) w')
                          else (Inl e, w')
                      | (Inr b, w') \<Rightarrow> (Inr b, w')))))"

subsection \<open>Knowledge Uploader (lines 136-167)\<close>

text \<open>\<^verbatim>\<open>requests.post(url, headers=..., files=... / json=...)\<close>\<close>

definition requests_post :: "env \<Rightarrow> request \<Rightarrow> world \<Rightarrow> (exn + response) \<times> world" where
  "requests_post E req w =
     (case http E (trace w) req of
        Inl msg \<Rightarrow> (Inl (RequestError msg), emit (Http req) w)
      | Inr resp \<Rightarrow> (Inr resp, emit (Http req) w))"

text \<open>\<^verbatim>\<open>response.raise_for_status()\<close> raises for the status codes 400 to 599, and for no other.\<close>

definition raise_for_status :: "response \<Rightarrow> exn + unit" where
  "raise_for_status resp =
     (if 400 \<le> status_code resp \<and> status_code resp < 600
      then Inl (HTTPError (status_code resp)) else Inr ())"

text \<open>\<^verbatim>\<open>response.json()\<close>\<close>

definition response_json :: "env \<Rightarrow> response \<Rightarrow> exn + json" where
  "response_json E resp =
     (case parsed resp of
        None \<Rightarrow> Inl (if legacy_json_error E then JSONDecodeError else RequestsJSONDecodeError)
      | Some j \<Rightarrow> Inr j)"

text \<open>
  \<^verbatim>\<open>file_info[key]\<close> on a parsed JSON value: only an object can be indexed by a string, and
  of a repeated key the last value counts.
\<close>

fun subscript :: "json \<Rightarrow> string \<Rightarrow> exn + json" where
  "subscript (JObj kvs) k =
     (case map_of (rev kvs) k of None \<Rightarrow> Inl (KeyError k) | Some v \<Rightarrow> Inr v)"
| "subscript (JArr xs) k = Inl (TypeError ''list indices must be integers or slices, not str'')"
| "subscript (JStr x) k = Inl (TypeError ''string indices must be integers, not str'')"
| "subscript j k = Inl (TypeError ''object is not subscriptable'')"

definition add_file_to_knowledge :: "env \<Rightarrow> config \<Rightarrow> json \<Rightarrow> world \<Rightarrow> (exn + unit) \<times> world" where
  "add_file_to_knowledge E cfg file_id w =
     (let url = WEBUI_URL cfg @ ''/api/v1/knowledge/'' @ KNOWLEDGE_ID cfg @ ''/file/add'';
          headers = [(''Authorization'', ''Bearer '' @ TOKEN cfg),
                     (''Content-Type'', ''application/json'')];
          data = JObj [(''file_id'', file_id)];
          r = (case requests_post E (Post url headers (JsonBody data)) w of
                 (Inl e, w1) \<Rightarrow> (Inl e, w1)
               | (Inr resp, w1) \<Rightarrow>
                   (case raise_for_status resp of
                      Inl e \<Rightarrow> (Inl e, w1)
                    | Inr u \<Rightarrow>
                        (Inr (), emit (Log INFO ''File {} added to knowledge base.''
                                         [AJson file_id]) w1)))
      in case r of
           (Inl e, w') \<Rightarrow>
             if is_RequestException e then
               (Inr (), emit (Log ERROR ''Error adding file {} to knowledge base: {}''
                                [AJson file_id, AExn e]) w')
             else (Inl e, w')
         | (Inr u, w') \<Rightarrow> (Inr (), w'))"

definition upload_to_webui :: "env \<Rightarrow> config \<Rightarrow> path \<Rightarrow> world \<Rightarrow> (exn + unit) \<times> world" where
  "upload_to_webui E cfg file_path w =
     (let url = WEBUI_URL cfg @ ''/api/v1/files/'';
          headers = [(''Authorization'', ''Bearer '' @ TOKEN cfg),
                     (''Accept'', ''application/json'')];
          r = (case os_open E file_path w of
                 Inl e \<Rightarrow> (Inl e, w)
               | Inr content \<Rightarrow>
                   (case requests_post E (Post url headers (Multipart file_path content)) w of
                      (Inl e, w1) \<Rightarrow> (Inl e, w1)
                    | (Inr resp, w1) \<Rightarrow>
                        (case raise_for_status resp of
                           Inl e \<Rightarrow> (Inl e, w1)
                         | Inr u \<Rightarrow>
                             (let w2 = emit (Log INFO ''Upload successful: {}'' [AStr file_path]) w1
                              in case response_json E resp of
                                   Inl e \<Rightarrow> (Inl e, w2)
                                 | Inr file_info \<Rightarrow>
                                     (case subscript file_info ''id'' of
                                        Inl e \<Rightarrow> (Inl e, w2)
                                      | Inr file_id \<Rightarrow>
                                          add_file_to_knowledge E cfg file_id w2)))))
      in case r of
           (Inl e, w') \<Rightarrow>
             if is_RequestException e then
               (Inr (), emit (Log ERROR ''Error uploading file {}: {}''
                                [AStr file_path, AExn e]) w')
             else (Inl e, w')
         | (Inr u, w') \<Rightarrow> (Inr (), w'))"

subsection \<open>Sync Cycle Orchestrator (lines 169-200)\<close>

text \<open>The inner loop (lines 185-194), over the file names of one directory.\<close>

fun upload_files ::
  "env \<Rightarrow> config \<Rightarrow> path \<Rightarrow> string list \<Rightarrow> int \<Rightarrow> world \<Rightarrow> (exn + int) \<times> world" where
  "upload_files E cfg root [] files_uploaded w = (Inr files_uploaded, w)"
| "upload_files E cfg root (filename # rest) files_uploaded w =
     (let file_path = path_join root filename
      in if contains file_path ''.git'' then upload_files E cfg root rest files_uploaded w
         else if is_allowed_extension cfg filename then
           (case upload_to_webui E cfg file_path w of
              (Inl e, w') \<Rightarrow> (Inl e, w')
            | (Inr u, w') \<Rightarrow> upload_files E cfg root rest (files_uploaded + 1) w')
         else upload_files E cfg root rest files_uploaded w)"

text \<open>
  The outer loop (line 184), over the triples of \<^verbatim>\<open>os.walk\<close>. The walk is taken before the
  loop starts; no step of the loop changes the file system.
\<close>

fun walk_loop ::
  "env \<Rightarrow> config \<Rightarrow> (path \<times> string list \<times> string list) list \<Rightarrow> int \<Rightarrow> world
     \<Rightarrow> (exn + int) \<times> world" where
  "walk_loop E cfg [] files_uploaded w = (Inr files_uploaded, w)"
| "walk_loop E cfg ((root, dirs, files) # triples) files_uploaded w =
     (case upload_files E cfg root files files_uploaded w of
        (Inl e, w') \<Rightarrow> (Inl e, w')
      | (Inr n, w') \<Rightarrow> walk_loop E cfg triples n w')"

definition sync_process :: "env \<Rightarrow> config \<Rightarrow> world \<Rightarrow> (exn + unit) \<times> world" where
  "sync_process E cfg w =
     (let r =
        (case ensure_directory E (SYNC_DIRECTORY cfg) w of
           (Inl e, w1) \<Rightarrow> (Inl e, w1)
         | (Inr u, w1) \<Rightarrow>
             (case clone_or_pull_repository E cfg w1 of
                (Inl e, w2) \<Rightarrow> (Inl e, w2)
              | (Inr repo_synced, w2) \<Rightarrow>
                  (let w3 = (if \<not> repo_synced then
                               emit (Log WARNING
                                 ''Repository sync skipped. Proceeding with existing files.'' []) w2
                             else w2)
                   in case walk_loop E cfg (os_walk (fs w3) (SYNC_DIRECTORY cfg)) 0 w3 of
                        (Inl e, w4) \<Rightarrow> (Inl e, w4)
                      | (Inr files_uploaded, w4) \<Rightarrow>
                          (Inr (), emit (Log INFO ''Sync process completed. Files uploaded: {}''
                                           [AInt files_uploaded]) w4))))
      in case r of
           (Inl e, w') \<Rightarrow>
             if is_Exception e then
               (Inl e, emit (Log ERROR ''Synchronization process failed: {}'' [AExn e]) w')
             else (Inl e, w')
         | (Inr u, w') \<Rightarrow> (Inr (), w'))"

subsection \<open>Daemon Loop (lines 202-214)\<close>

text \<open>\<^verbatim>\<open>time.sleep(secs)\<close> raises \<^verbatim>\<open>ValueError\<close> for a negative length.\<close>

definition time_sleep :: "int \<Rightarrow> world \<Rightarrow> (exn + unit) \<times> world" where
  "time_sleep secs w =
     (if secs < 0 then (Inl (ValueError ''sleep length must be non-negative''), w)
      else (Inr (), emit (Sleep secs) w))"

text \<open>The body of \<^verbatim>\<open>while True\<close> (lines 207-214).\<close>

definition main_iteration :: "env \<Rightarrow> config \<Rightarrow> world \<Rightarrow> (exn + unit) \<times> world" where
  "main_iteration E cfg w =
     (case (case sync_process E cfg w of
              (Inl e, w') \<Rightarrow>
                if is_Exception e then
                  (Inr (), emit (Log ERROR ''Error in sync loop: {}'' [AExn e]) w')
                else (Inl e, w')
            | (Inr u, w') \<Rightarrow> (Inr (), w')) of
        (Inl e, w1) \<Rightarrow> (Inl e, w1)
      | (Inr u, w1) \<Rightarrow>
          time_sleep (SYNC_INTERVAL cfg)
            (emit (Log INFO ''Waiting {} seconds before next sync...''
                     [AInt (SYNC_INTERVAL cfg)]) w1))"

text \<open>
  \<^verbatim>\<open>while True\<close> has no exit: the loop ends only when an exception leaves its body. The
  model runs it for a given number of iterations; \<open>None\<close> says that the loop is still
  running after them, \<open>Some e\<close> that \<open>e\<close> ended it.
\<close>

fun main_loop :: "nat \<Rightarrow> env \<Rightarrow> config \<Rightarrow> world \<Rightarrow> exn option \<times> world" where
  "main_loop 0 E cfg w = (None, w)"
| "main_loop (Suc n) E cfg w =
     (case main_iteration E cfg w of
        (Inl e, w') \<Rightarrow> (Some e, w')
      | (Inr u, w') \<Rightarrow> main_loop n E cfg w')"

definition main :: "nat \<Rightarrow> env \<Rightarrow> config \<Rightarrow> world \<Rightarrow> exn option \<times> world" where
  "main n E cfg w =
     main_loop n E cfg
       (emit (Log INFO ''Starting continuous sync process. Interval: {} seconds''
                [AInt (SYNC_INTERVAL cfg)]) w)"

subsection \<open>Reading a trace\<close>

text \<open>The paths posted to the files endpoint, and the bodies posted as JSON.\<close>

fun uploaded_paths :: "event list \<Rightarrow> path list" where
  "uploaded_paths [] = []"
| "uploaded_paths (Http (Post u h (Multipart p c)) # evs) = p # uploaded_paths evs"
| "uploaded_paths (e # evs) = uploaded_paths evs"

fun registrations :: "event list \<Rightarrow> json list" where
  "registrations [] = []"
| "registrations (Http (Post u h (JsonBody j)) # evs) = j # registrations evs"
| "registrations (e # evs) = registrations evs"

text \<open>The upload call of \<open>upload_to_webui\<close> for a file and its content.\<close>

definition upload_request :: "config \<Rightarrow> path \<Rightarrow> string \<Rightarrow> request" where
  "upload_request cfg file_path content =
     Post (WEBUI_URL cfg @ ''/api/v1/files/'')
          [(''Authorization'', ''Bearer '' @ TOKEN cfg), (''Accept'', ''application/json'')]
          (Multipart file_path content)"

fun sleeps :: "event list \<Rightarrow> int list" where
  "sleeps [] = []"
| "sleeps (Sleep n # evs) = n # sleeps evs"
| "sleeps (e # evs) = sleeps evs"

text \<open>
  The File Scanner (lines 184-189): the directory and name of every file of a walk whose
  joined path passes the \<^verbatim>\<open>'.git' in file_path\<close> test, in the order of the loop.
\<close>

definition candidates :: "(path \<times> string list \<times> string list) list \<Rightarrow> (path \<times> string) list" where
  "candidates triples =
     concat (map (\<lambda>(root, dirs, files).
       map (\<lambda>filename. (root, filename))
         (filter (\<lambda>filename. \<not> contains (path_join root filename) ''.git'') files)) triples)"

text \<open>The candidates the Extension Filter accepts.\<close>

definition accepted :: "config \<Rightarrow> (path \<times> string) list \<Rightarrow> (path \<times> string) list" where
  "accepted cfg cs = filter (\<lambda>(root, filename). is_allowed_extension cfg filename) cs"

definition paths_of :: "(path \<times> string) list \<Rightarrow> path list" where
  "paths_of cs = map (\<lambda>(root, filename). path_join root filename) cs"


subsection \<open>Example worlds\<close>


definition empty_world :: world where
  "empty_world = \<lparr>fs = Dir [], trace = []\<rparr>"

definition default_config :: config where
  "default_config =
     \<lparr>GITHUB_TOKEN = None, GITHUB_USERNAME = None, REPO_URL = None,
      SYNC_DIRECTORY = ''/app/data'', WEBUI_URL = [], TOKEN = ''your-webui-token-here'',
      KNOWLEDGE_ID = [], SYNC_INTERVAL = 3600,
      ALLOWED_EXTENSIONS = allowed_extensions_of_env None\<rparr>"

text \<open>
  A mirror in \<^verbatim>\<open>/app/data\<close> holding \<^verbatim>\<open>.git/config\<close>, \<^verbatim>\<open>a.md\<close> and \<^verbatim>\<open>b.py\<close>, with nothing
  done yet.
\<close>

definition mirror_fs :: node where
  "mirror_fs =
     Dir [(''app'', Dir [(''data'',
       Dir [(''.git'', Dir [(''config'', File ''[core]'')]),
            (''a.md'', File ''alpha''),
            (''b.py'', File ''beta'')])])]"

definition mirror_world :: world where
  "mirror_world = \<lparr>fs = mirror_fs, trace = []\<rparr>"

text \<open>
  Collaborators that do nothing: every command exits with code 0 and leaves the files
  alone, the service cannot be reached.
\<close>

definition quiet_env :: env where
  "quiet_env = \<lparr>shell = (\<lambda>h c d n. (Exited 0 [] [], n)),
                http = (\<lambda>h r. Inl ''connection refused''),
                urlparse = (\<lambda>u. Inr (''github.com'', ''/org/repo.git'')),
                makedirs_fault = (\<lambda>h p. None),
                open_denied = (\<lambda>h p. False),
                legacy_json_error = False\<rparr>"

text \<open>
  A service that answers every request with 300 (which requests does not follow) and a
  body holding an identifier.
\<close>

definition multiple_choices_env :: env where
  "multiple_choices_env =
     quiet_env\<lparr>http := (\<lambda>h r. Inr (Response 300 (Some (JObj [(''id'', JStr ''xyz'')]))))\<rparr>"

text \<open>A service that answers every request with 404.\<close>

definition not_found_env :: env where
  "not_found_env = quiet_env\<lparr>http := (\<lambda>h r. Inr (Response 404 None))\<rparr>"

text \<open>A service that stores every upload and answers 200 with a body that has no \<^verbatim>\<open>id\<close>.\<close>

definition no_id_env :: env where
  "no_id_env =
     quiet_env\<lparr>http := (\<lambda>h r. Inr (Response 200 (Some (JObj [(''name'', JStr ''stored'')]))))\<rparr>"

text \<open>The mirror when the loop of a cycle without repository starts.\<close>

definition scan_world :: world where
  "scan_world =
     \<lparr>fs = mirror_fs,
      trace = [Makedirs ''/app/data'',
               Log INFO ''Ensured directory exists: {}'' [AStr ''/app/data''],
               Log WARNING ''No repository URL provided. Skipping repository sync.'' [],
               Log WARNING ''Repository sync skipped. Proceeding with existing files.'' []]\<rparr>"

text \<open>A service that answers every request with 200 and a body that is not JSON.\<close>

definition html_env :: env where
  "html_env = quiet_env\<lparr>http := (\<lambda>h r. Inr (Response 200 None))\<rparr>"


text \<open>A configuration that allows \<^verbatim>\<open>.md\<close> and \<^verbatim>\<open>.py\<close>, and one that allows every name.\<close>

definition md_py_config :: config where
  "md_py_config = default_config\<lparr>ALLOWED_EXTENSIONS := [''.md'', ''.py'']\<rparr>"

definition any_config :: config where
  "any_config = default_config\<lparr>ALLOWED_EXTENSIONS := allowed_extensions_of_env (Some [])\<rparr>"

text \<open>Configurations with a repository, without and with credentials.\<close>

definition repo_config :: config where
  "repo_config = default_config\<lparr>REPO_URL := Some ''https://github.com/org/repo.git''\<rparr>"

definition auth_config :: config where
  "auth_config = repo_config\<lparr>GITHUB_TOKEN := Some ''t0ken'', GITHUB_USERNAME := Some ''alice''\<rparr>"







section \<open>Properties\<close>

subsection \<open>Traces\<close>

lemma trace_emit [simp]: "trace (emit e w) = trace w @ [e]"
  by (simp add: emit_def)

lemma fs_emit [simp]: "fs (emit e w) = fs w"
  by (simp add: emit_def)

lemma registrations_append [simp]:
  "registrations (xs @ ys) = registrations xs @ registrations ys"
  by (induction xs rule: registrations.induct) auto

lemma uploaded_paths_append [simp]:
  "uploaded_paths (xs @ ys) = uploaded_paths xs @ uploaded_paths ys"
  by (induction xs rule: uploaded_paths.induct) auto

lemma sleeps_append [simp]:
  "sleeps (xs @ ys) = sleeps xs @ sleeps ys"
  by (induction xs rule: sleeps.induct) auto

subsection \<open>Extension Filter\<close>

lemma endswith_iff: "endswith s t \<longleftrightarrow> (\<exists>p. s = p @ t)"
proof
  assume "endswith s t"
  then have "s = take (length s - length t) s @ t"
    by (metis append_take_drop_id endswith_def)
  then show "\<exists>p. s = p @ t" ..
next
  assume "\<exists>p. s = p @ t"
  then show "endswith s t" by (auto simp: endswith_def)
qed

lemma any_endswith_iff:
  "any_endswith filename exts \<longleftrightarrow> (\<exists>ext \<in> set exts. endswith filename ext)"
  by (induction exts) auto

text \<open>
  C5. The Extension Filter accepts a name exactly when the name ends with one of the
  configured extensions, compared character by character as a literal suffix, and two
  allow-lists that are permutations of each other accept the same names.
\<close>

theorem is_allowed_extension_suffix_perm:
  "(is_allowed_extension cfg filename \<longleftrightarrow>
      (\<exists>ext \<in> set (ALLOWED_EXTENSIONS cfg). \<exists>p. filename = p @ ext)) \<and>
   (mset (ALLOWED_EXTENSIONS cfg') = mset (ALLOWED_EXTENSIONS cfg) \<longrightarrow>
      is_allowed_extension cfg' filename = is_allowed_extension cfg filename)"
proof -
  have iff: "\<And>c. is_allowed_extension c filename \<longleftrightarrow>
      (\<exists>ext \<in> set (ALLOWED_EXTENSIONS c). \<exists>p. filename = p @ ext)"
    by (simp add: is_allowed_extension_def any_endswith_iff endswith_iff)
  have "is_allowed_extension cfg' filename = is_allowed_extension cfg filename"
    if "mset (ALLOWED_EXTENSIONS cfg') = mset (ALLOWED_EXTENSIONS cfg)"
  proof -
    from that have "set (ALLOWED_EXTENSIONS cfg') = set (ALLOWED_EXTENSIONS cfg)"
      by (rule mset_eq_setD)
    then show ?thesis by (simp add: iff)
  qed
  with iff show ?thesis by blast
qed

theorem is_allowed_extension_suffix_perm_witness:
  "(\<exists>ext \<in> set (ALLOWED_EXTENSIONS default_config). \<exists>p. ''a.md'' = p @ ext) \<and>
   mset (ALLOWED_EXTENSIONS (default_config\<lparr>ALLOWED_EXTENSIONS := [''.txt'', ''.md'']\<rparr>))
     = mset (ALLOWED_EXTENSIONS default_config) \<and>
   is_allowed_extension default_config ''a.md'' \<and>
   is_allowed_extension (default_config\<lparr>ALLOWED_EXTENSIONS := [''.txt'', ''.md'']\<rparr>) ''a.md''"
proof -
  have exts: "ALLOWED_EXTENSIONS default_config = [''.md'', ''.txt'']"
    by (simp add: default_config_def allowed_extensions_of_env_def)
  have h1: "\<exists>ext \<in> set (ALLOWED_EXTENSIONS default_config). \<exists>p. ''a.md'' = p @ ext"
    unfolding exts by (rule bexI [of _ "''.md''"], rule exI [of _ "''a''"]) simp_all
  have h2: "mset (ALLOWED_EXTENSIONS (default_config\<lparr>ALLOWED_EXTENSIONS := [''.txt'', ''.md'']\<rparr>))
     = mset (ALLOWED_EXTENSIONS default_config)"
    unfolding exts by simp
  from h1 h2
    is_allowed_extension_suffix_perm
      [of default_config "''a.md''" "default_config\<lparr>ALLOWED_EXTENSIONS := [''.txt'', ''.md'']\<rparr>"]
  show ?thesis by blast
qed

subsection \<open>Command Runner\<close>



subsection \<open>Knowledge Uploader\<close>

lemma add_file_to_knowledge_regs:
  "registrations (trace (snd (add_file_to_knowledge E cfg file_id w))) =
     registrations (trace w) @ [JObj [(''file_id'', file_id)]]"
  by (simp add: add_file_to_knowledge_def requests_post_def Let_def
           split: sum.splits prod.splits)

text \<open>
  C1 (as amended). \<open>upload_to_webui\<close> issues no registration call when the file cannot be
  opened, when the upload call fails with a transport error, and when the upload call
  returns a status from 400 to 599: the registration call is issued exactly when the
  upload call returned a response with a status outside 400 to 599 whose JSON body yields
  a file identifier, and then once, with that identifier.
\<close>

theorem upload_to_webui_registers:
  "registrations (trace (snd (upload_to_webui E cfg file_path w))) =
     registrations (trace w) @
       (case os_open E file_path w of
          Inl e \<Rightarrow> []
        | Inr content \<Rightarrow>
            (case http E (trace w) (upload_request cfg file_path content) of
               Inl msg \<Rightarrow> []
             | Inr resp \<Rightarrow>
                 if 400 \<le> status_code resp \<and> status_code resp < 600 then []
                 else (case parsed resp of
                         None \<Rightarrow> []
                       | Some file_info \<Rightarrow>
                           (case subscript file_info ''id'' of
                              Inl e \<Rightarrow> []
                            | Inr file_id \<Rightarrow> [JObj [(''file_id'', file_id)]]))))"
  by (simp add: upload_to_webui_def requests_post_def Let_def upload_request_def
         raise_for_status_def response_json_def add_file_to_knowledge_regs split_beta
           split: sum.splits option.splits)

theorem upload_to_webui_registers_witness:
  "os_open not_found_env ''/app/data/a.md'' mirror_world = Inr ''alpha'' \<and>
   http not_found_env (trace mirror_world)
       (upload_request default_config ''/app/data/a.md'' ''alpha'') = Inr (Response 404 None) \<and>
   registrations (trace (snd (upload_to_webui not_found_env default_config
                                 ''/app/data/a.md'' mirror_world))) = []"
proof -
  have o: "os_open not_found_env ''/app/data/a.md'' mirror_world = Inr ''alpha''"
    by (simp add: os_open_def not_found_env_def quiet_env_def resolve_def components_def
          mirror_world_def mirror_fs_def)
  have h: "http not_found_env (trace mirror_world)
       (upload_request default_config ''/app/data/a.md'' ''alpha'') = Inr (Response 404 None)"
    by (simp add: not_found_env_def quiet_env_def)
  have t: "registrations (trace mirror_world) = []"
    by (simp add: mirror_world_def)
  from upload_to_webui_registers [of not_found_env default_config "''/app/data/a.md''" mirror_world]
  show ?thesis by (simp add: o h t)
qed

text \<open>
  The claim as stated, for every status that is not 2xx, fails: a response with status 300
  and a body holding an identifier passes \<open>raise_for_status\<close>, and the file is registered.
\<close>

theorem upload_to_webui_registers_after_300:
  "http multiple_choices_env (trace mirror_world)
       (upload_request default_config ''/app/data/a.md'' ''alpha'')
     = Inr (Response 300 (Some (JObj [(''id'', JStr ''xyz'')]))) \<and>
   \<not> (200 \<le> (300::int) \<and> (300::int) < 300) \<and>
   registrations (trace (snd (upload_to_webui multiple_choices_env default_config
                                 ''/app/data/a.md'' mirror_world)))
     = [JObj [(''file_id'', JStr ''xyz'')]]"
  by (simp add: upload_to_webui_def requests_post_def Let_def
         raise_for_status_def response_json_def add_file_to_knowledge_def split_beta
         os_open_def multiple_choices_env_def quiet_env_def resolve_def components_def
         mirror_world_def mirror_fs_def upload_request_def default_config_def)

subsection \<open>Repository Mirror\<close>

text \<open>
  C8. Without a repository URL, \<open>clone_or_pull_repository\<close> returns \<open>False\<close> and raises
  nothing; it leaves the file system as it was and issues no effect but one log record:
  no directory is created and no command is run.
\<close>

theorem clone_or_pull_no_url:
  assumes "\<not> truthy (REPO_URL cfg)"
  shows "fst (clone_or_pull_repository E cfg w) = Inr False \<and>
         fs (snd (clone_or_pull_repository E cfg w)) = fs w \<and>
         trace (snd (clone_or_pull_repository E cfg w)) =
           trace w @ [Log WARNING ''No repository URL provided. Skipping repository sync.'' []]"
  using assms by (simp add: clone_or_pull_repository_def)

theorem clone_or_pull_no_url_witness:
  "\<not> truthy (REPO_URL default_config) \<and>
   fst (clone_or_pull_repository quiet_env default_config empty_world) = Inr False \<and>
   fs (snd (clone_or_pull_repository quiet_env default_config empty_world)) = Dir [] \<and>
   trace (snd (clone_or_pull_repository quiet_env default_config empty_world)) =
     [Log WARNING ''No repository URL provided. Skipping repository sync.'' []]"
proof -
  have h: "\<not> truthy (REPO_URL default_config)"
    by (simp add: default_config_def)
  from h clone_or_pull_no_url [OF h, of quiet_env empty_world]
  show ?thesis by (simp add: empty_world_def)
qed






lemmas ex_defs = default_config_def repo_config_def auth_config_def quiet_env_def
  mirror_world_def mirror_fs_def empty_world_def allowed_extensions_of_env_def

lemmas op_defs = clone_or_pull_repository_def configure_git_credentials_def
  ensure_directory_def os_makedirs_def get_authenticated_repo_url_def run_command_def
  subprocess_run_def path_exists_def resolve_def components_def path_join_def endswith_def
  emit_def dq_def Let_def














subsection \<open>Sync Cycle Orchestrator\<close>

lemma run_command_sleeps [simp]:
  "sleeps (trace (snd (run_command E c d em ho w))) = sleeps (trace w)"
  by (simp add: run_command_def subprocess_run_def Let_def split_beta
        split: sum.splits proc.splits)

lemma run_command_uploaded [simp]:
  "uploaded_paths (trace (snd (run_command E c d em ho w))) = uploaded_paths (trace w)"
  by (simp add: run_command_def subprocess_run_def Let_def split_beta
        split: sum.splits proc.splits)

lemma configure_sleeps [simp]:
  "sleeps (trace (snd (configure_git_credentials E cfg w))) = sleeps (trace w)"
  by (simp add: configure_git_credentials_def Let_def split_beta split: sum.splits)

lemma configure_uploaded [simp]:
  "uploaded_paths (trace (snd (configure_git_credentials E cfg w))) = uploaded_paths (trace w)"
  by (simp add: configure_git_credentials_def Let_def split_beta split: sum.splits)

lemma ensure_sleeps [simp]:
  "sleeps (trace (snd (ensure_directory E d w))) = sleeps (trace w)"
  by (simp add: ensure_directory_def os_makedirs_def Let_def split_beta
        split: sum.splits option.splits node.splits)

lemma ensure_uploaded [simp]:
  "uploaded_paths (trace (snd (ensure_directory E d w))) = uploaded_paths (trace w)"
  by (simp add: ensure_directory_def os_makedirs_def Let_def split_beta
        split: sum.splits option.splits node.splits)

lemma clone_sleeps [simp]:
  "sleeps (trace (snd (clone_or_pull_repository E cfg w))) = sleeps (trace w)"
  by (simp add: clone_or_pull_repository_def Let_def split_beta split: sum.splits)

lemma clone_uploaded [simp]:
  "uploaded_paths (trace (snd (clone_or_pull_repository E cfg w))) = uploaded_paths (trace w)"
  by (simp add: clone_or_pull_repository_def Let_def split_beta split: sum.splits)

lemma add_file_sleeps [simp]:
  "sleeps (trace (snd (add_file_to_knowledge E cfg i w))) = sleeps (trace w)"
  by (simp add: add_file_to_knowledge_def requests_post_def Let_def split_beta
        split: sum.splits)

lemma add_file_uploaded [simp]:
  "uploaded_paths (trace (snd (add_file_to_knowledge E cfg i w))) = uploaded_paths (trace w)"
  by (simp add: add_file_to_knowledge_def requests_post_def Let_def split_beta
        split: sum.splits)

lemma upload_sleeps [simp]:
  "sleeps (trace (snd (upload_to_webui E cfg p w))) = sleeps (trace w)"
  by (simp add: upload_to_webui_def requests_post_def Let_def split_beta
        split: sum.splits)

lemma upload_uploaded:
  "uploaded_paths (trace (snd (upload_to_webui E cfg p w))) =
     uploaded_paths (trace w) @ (case os_open E p w of Inl e \<Rightarrow> [] | Inr c \<Rightarrow> [p])"
  by (simp add: upload_to_webui_def requests_post_def Let_def split_beta
        split: sum.splits)

lemma os_open_error: "os_open E p w = Inl e \<Longrightarrow> \<not> is_RequestException e"
  by (auto simp: os_open_def split: if_splits option.splits node.splits)

lemma upload_returns_opened:
  assumes "fst (upload_to_webui E cfg p w) = Inr u"
  shows "\<exists>c. os_open E p w = Inr c"
proof (cases "os_open E p w")
  case (Inl e)
  with assms os_open_error [OF Inl] show ?thesis
    by (simp add: upload_to_webui_def)
next
  case (Inr c)
  then show ?thesis by simp
qed

lemma candidates_Nil [simp]: "candidates [] = []"
  by (simp add: candidates_def)

lemma candidates_Cons:
  "candidates ((root, dirs, files) # triples) =
     map (Pair root) (filter (\<lambda>f. \<not> contains (path_join root f) ''.git'') files)
       @ candidates triples"
  by (simp add: candidates_def)

lemma accepted_append [simp]: "accepted cfg (a @ b) = accepted cfg a @ accepted cfg b"
  by (simp add: accepted_def)

lemma paths_of_append [simp]: "paths_of (a @ b) = paths_of a @ paths_of b"
  by (simp add: paths_of_def)

lemma candidates_files_Cons:
  "candidates [(root, dirs, f # files)] =
     (if contains (path_join root f) ''.git'' then [] else [(root, f)])
       @ candidates [(root, dirs, files)]"
  by (simp add: candidates_def)

lemma upload_files_done:
  "upload_files E cfg root files n w = (Inr m, w') \<Longrightarrow>
     m = n + int (length (accepted cfg (candidates [(root, dirs, files)]))) \<and>
     uploaded_paths (trace w') =
       uploaded_paths (trace w) @ paths_of (accepted cfg (candidates [(root, dirs, files)]))"
proof (induction files arbitrary: n w)
  case Nil
  then show ?case by (simp add: candidates_def accepted_def paths_of_def)
next
  case (Cons f files)
  show ?case
  proof (cases "contains (path_join root f) ''.git''")
    case True
    with Cons show ?thesis by (simp add: candidates_files_Cons)
  next
    case git: False
    show ?thesis
    proof (cases "is_allowed_extension cfg f")
      case False
      with git Cons show ?thesis
        by (simp add: candidates_files_Cons accepted_def paths_of_def)
    next
      case True
      obtain r w1 where u: "upload_to_webui E cfg (path_join root f) w = (r, w1)"
        by (cases "upload_to_webui E cfg (path_join root f) w") auto
      with Cons.prems git True obtain x where r: "r = Inr x"
        by (cases r) auto
      from u r obtain c where o: "os_open E (path_join root f) w = Inr c"
        using upload_returns_opened [of E cfg "path_join root f" w x] by auto
      have up: "uploaded_paths (trace w1) = uploaded_paths (trace w) @ [path_join root f]"
        using upload_uploaded [of E cfg "path_join root f" w] u o by simp
      from Cons.prems git True u r
      have "upload_files E cfg root files (n + 1) w1 = (Inr m, w')" by simp
      from Cons.IH [OF this] up git True show ?thesis
        by (simp add: candidates_files_Cons accepted_def paths_of_def)
    qed
  qed
qed

lemma walk_loop_done:
  "walk_loop E cfg triples n w = (Inr m, w') \<Longrightarrow>
     m = n + int (length (accepted cfg (candidates triples))) \<and>
     uploaded_paths (trace w') =
       uploaded_paths (trace w) @ paths_of (accepted cfg (candidates triples))"
proof (induction triples arbitrary: n w)
  case Nil
  then show ?case by (simp add: accepted_def paths_of_def)
next
  case (Cons t triples)
  obtain root dirs files where t: "t = (root, dirs, files)"
    by (cases t) auto
  obtain r w1 where u: "upload_files E cfg root files n w = (r, w1)"
    by (cases "upload_files E cfg root files n w") auto
  with Cons.prems t obtain k where r: "r = Inr k"
    by (cases r) auto
  from upload_files_done [of E cfg root files n w k w1 dirs] u r
  have 1: "k = n + int (length (accepted cfg (candidates [(root, dirs, files)])))"
    and 2: "uploaded_paths (trace w1) =
       uploaded_paths (trace w) @ paths_of (accepted cfg (candidates [(root, dirs, files)]))"
    by auto
  from Cons.prems t u r have "walk_loop E cfg triples k w1 = (Inr m, w')" by simp
  from Cons.IH [OF this] 1 2 show ?case
    by (simp add: t candidates_Cons [of root dirs files triples]
          candidates_Cons [of root dirs files "[]"])
qed

lemma upload_files_git_free:
  "p \<in> set (uploaded_paths (trace (snd (upload_files E cfg root files n w)))) \<Longrightarrow>
     p \<in> set (uploaded_paths (trace w)) \<or> \<not> contains p ''.git''"
proof (induction files arbitrary: n w)
  case Nil
  then show ?case by simp
next
  case (Cons f files)
  show ?case
  proof (cases "\<not> contains (path_join root f) ''.git'' \<and> is_allowed_extension cfg f")
    case False
    with Cons show ?thesis by (auto simp: Let_def split: if_splits)
  next
    case True
    obtain r w1 where u: "upload_to_webui E cfg (path_join root f) w = (r, w1)"
      by (cases "upload_to_webui E cfg (path_join root f) w") auto
    have up: "set (uploaded_paths (trace w1)) \<subseteq>
                set (uploaded_paths (trace w)) \<union> {path_join root f}"
      using upload_uploaded [of E cfg "path_join root f" w] u
      by (auto split: sum.splits)
    show ?thesis
    proof (cases r)
      case (Inl e)
      with Cons.prems True u up show ?thesis by auto
    next
      case (Inr x)
      with Cons.prems True u
      have "p \<in> set (uploaded_paths (trace (snd (upload_files E cfg root files (n + 1) w1))))"
        by simp
      from Cons.IH [OF this] up True show ?thesis by auto
    qed
  qed
qed

lemma walk_loop_git_free:
  "p \<in> set (uploaded_paths (trace (snd (walk_loop E cfg triples n w)))) \<Longrightarrow>
     p \<in> set (uploaded_paths (trace w)) \<or> \<not> contains p ''.git''"
proof (induction triples arbitrary: n w)
  case Nil
  then show ?case by simp
next
  case (Cons t triples)
  obtain root dirs files where t: "t = (root, dirs, files)"
    by (cases t) auto
  obtain r w1 where u: "upload_files E cfg root files n w = (r, w1)"
    by (cases "upload_files E cfg root files n w") auto
  have 1: "\<And>q. q \<in> set (uploaded_paths (trace w1)) \<Longrightarrow>
             q \<in> set (uploaded_paths (trace w)) \<or> \<not> contains q ''.git''"
    using upload_files_git_free [of _ E cfg root files n w] u by simp
  show ?case
  proof (cases r)
    case (Inl e)
    with Cons.prems t u 1 show ?thesis by simp
  next
    case (Inr k)
    with Cons.prems t u
    have "p \<in> set (uploaded_paths (trace (snd (walk_loop E cfg triples k w1))))" by simp
    from Cons.IH [OF this] 1 show ?thesis by auto
  qed
qed

lemma sync_process_git_free:
  assumes "p \<in> set (uploaded_paths (trace (snd (sync_process E cfg w))))"
  shows "p \<in> set (uploaded_paths (trace w)) \<or> \<not> contains p ''.git''"
proof -
  obtain r1 w1 where e: "ensure_directory E (SYNC_DIRECTORY cfg) w = (r1, w1)"
    by (cases "ensure_directory E (SYNC_DIRECTORY cfg) w") auto
  obtain r2 w2 where c: "clone_or_pull_repository E cfg w1 = (r2, w2)"
    by (cases "clone_or_pull_repository E cfg w1") auto
  have u1: "uploaded_paths (trace w1) = uploaded_paths (trace w)"
    using ensure_uploaded [of E "SYNC_DIRECTORY cfg" w] e by simp
  have u2: "uploaded_paths (trace w2) = uploaded_paths (trace w)"
    using clone_uploaded [of E cfg w1] c u1 by simp
  show ?thesis
  proof (cases r1)
    case (Inl x)
    with assms e u1 show ?thesis by (simp add: sync_process_def)
  next
    case r1: (Inr x)
    show ?thesis
    proof (cases r2)
      case (Inl y)
      with assms e c r1 u2 show ?thesis by (simp add: sync_process_def)
    next
      case (Inr synced)
      let ?w3 = "if \<not> synced then emit (Log WARNING
                   ''Repository sync skipped. Proceeding with existing files.'' []) w2 else w2"
      let ?L = "walk_loop E cfg (os_walk (fs ?w3) (SYNC_DIRECTORY cfg)) 0 ?w3"
      have u3: "uploaded_paths (trace ?w3) = uploaded_paths (trace w)"
        using u2 by simp
      from assms e c r1 Inr
      have "p \<in> set (uploaded_paths (trace (snd ?L)))"
        by (simp add: sync_process_def Let_def split_beta split: sum.splits if_splits)
      from walk_loop_git_free [OF this] u3 show ?thesis by simp
    qed
  qed
qed

text \<open>
  C6. For every directory tree, no path that contains \<^verbatim>\<open>.git\<close> is among the candidates of
  the File Scanner, and neither the loop over a walk nor a whole sync cycle uploads a
  path that contains \<^verbatim>\<open>.git\<close>, at whatever depth the walk found it.
\<close>

theorem scan_skips_git:
  "(\<forall>(root, filename) \<in> set (candidates (os_walk tree d)).
      \<not> contains (path_join root filename) ''.git'') \<and>
   (\<forall>p \<in> set (uploaded_paths (trace (snd (walk_loop E cfg (os_walk tree d) n w)))).
      p \<in> set (uploaded_paths (trace w)) \<or> \<not> contains p ''.git'') \<and>
   (\<forall>p \<in> set (uploaded_paths (trace (snd (sync_process E cfg w)))).
      p \<in> set (uploaded_paths (trace w)) \<or> \<not> contains p ''.git'')"
proof -
  have "\<And>T. \<forall>(root, filename) \<in> set (candidates T).
           \<not> contains (path_join root filename) ''.git''"
    by (auto simp: candidates_def)
  then show ?thesis
    using walk_loop_git_free sync_process_git_free by blast
qed

lemma sync_process_done:
  assumes "fst (sync_process E cfg w) = Inr u"
  shows "last (trace (snd (sync_process E cfg w))) =
           Log INFO ''Sync process completed. Files uploaded: {}''
             [AInt (int (length (accepted cfg (candidates (os_walk
                (fs (snd (clone_or_pull_repository E cfg
                       (snd (ensure_directory E (SYNC_DIRECTORY cfg) w)))))
                (SYNC_DIRECTORY cfg))))))]"
proof -
  obtain r1 w1 where e: "ensure_directory E (SYNC_DIRECTORY cfg) w = (r1, w1)"
    by (cases "ensure_directory E (SYNC_DIRECTORY cfg) w") auto
  obtain r2 w2 where c: "clone_or_pull_repository E cfg w1 = (r2, w2)"
    by (cases "clone_or_pull_repository E cfg w1") auto
  from assms e obtain x where r1: "r1 = Inr x"
    by (cases r1) (auto simp: sync_process_def)
  from assms e c r1 obtain synced where r2: "r2 = Inr synced"
    by (cases r2) (auto simp: sync_process_def)
  let ?w3 = "if \<not> synced then emit (Log WARNING
               ''Repository sync skipped. Proceeding with existing files.'' []) w2 else w2"
  obtain r4 w4 where l: "walk_loop E cfg (os_walk (fs ?w3) (SYNC_DIRECTORY cfg)) 0 ?w3 = (r4, w4)"
    by (cases "walk_loop E cfg (os_walk (fs ?w3) (SYNC_DIRECTORY cfg)) 0 ?w3") auto
  from assms e c r1 r2 l obtain m where r4: "r4 = Inr m"
    by (cases r4) (auto simp: sync_process_def Let_def split: if_splits)
  have f: "fs ?w3 = fs w2" by simp
  from walk_loop_done [of E cfg "os_walk (fs ?w3) (SYNC_DIRECTORY cfg)" 0 ?w3 m w4] l r4
  have "m = int (length (accepted cfg (candidates (os_walk (fs w2) (SYNC_DIRECTORY cfg)))))"
    unfolding f by simp
  with e c r1 r2 l r4 show ?thesis
    by (simp add: sync_process_def Let_def split: if_splits)
qed

text \<open>
  C2 (as amended). When the loop of a sync cycle runs to its end, the counter has been
  incremented once for every candidate the Extension Filter accepts, whatever the service
  answered to the uploads: it counts attempts. A cycle that completes logs that count.
  (An exception that leaves \<open>upload_to_webui\<close> ends the loop before the increment.)
\<close>

theorem files_uploaded_counts_attempts:
  "(walk_loop E cfg triples n w = (Inr m, w') \<longrightarrow>
      m = n + int (length (accepted cfg (candidates triples))) \<and>
      uploaded_paths (trace w') =
        uploaded_paths (trace w) @ paths_of (accepted cfg (candidates triples))) \<and>
   (fst (sync_process E cfg w) = Inr () \<longrightarrow>
      last (trace (snd (sync_process E cfg w))) =
        Log INFO ''Sync process completed. Files uploaded: {}''
          [AInt (int (length (accepted cfg (candidates (os_walk
             (fs (snd (clone_or_pull_repository E cfg
                    (snd (ensure_directory E (SYNC_DIRECTORY cfg) w)))))
             (SYNC_DIRECTORY cfg))))))])"
  using walk_loop_done [of E cfg triples n w m w'] sync_process_done [of E cfg w "()"]
  by blast

lemmas up_defs = sync_process_def os_walk_def upload_to_webui_def add_file_to_knowledge_def
  requests_post_def raise_for_status_def response_json_def os_open_def
  is_allowed_extension_def

lemma walk_mirror:
  "os_walk mirror_fs ''/app/data'' =
     [(''/app/data'', [''.git''], [''a.md'', ''b.py'']),
      (''/app/data/.git'', [], [''config''])]"
  by (simp add: os_walk_def mirror_fs_def resolve_def components_def path_join_def endswith_def)


lemma cand_mirror:
  "candidates (os_walk mirror_fs ''/app/data'') = [(''/app/data'', ''a.md''), (''/app/data'', ''b.py'')]"
  by (simp add: walk_mirror candidates_def path_join_def endswith_def)

lemma acc_mirror:
  "accepted default_config (candidates (os_walk mirror_fs ''/app/data'')) = [(''/app/data'', ''a.md'')]"
  by (simp add: cand_mirror accepted_def is_allowed_extension_def default_config_def
        allowed_extensions_of_env_def endswith_def)

theorem files_uploaded_counts_attempts_witness:
  "fst (sync_process not_found_env default_config mirror_world) = Inr () \<and>
   registrations (trace (snd (sync_process not_found_env default_config mirror_world))) = [] \<and>
   last (trace (snd (sync_process not_found_env default_config mirror_world))) =
     Log INFO ''Sync process completed. Files uploaded: {}'' [AInt 1] \<and>
   walk_loop not_found_env default_config (os_walk mirror_fs ''/app/data'') 0 mirror_world =
     (Inr 1, snd (walk_loop not_found_env default_config (os_walk mirror_fs ''/app/data'') 0
                    mirror_world)) \<and>
   uploaded_paths (trace (snd (walk_loop not_found_env default_config
       (os_walk mirror_fs ''/app/data'') 0 mirror_world))) = [''/app/data/a.md'']"
proof -
  let ?S = "sync_process not_found_env default_config mirror_world"
  let ?L = "walk_loop not_found_env default_config (os_walk mirror_fs ''/app/data'') 0 mirror_world"
  have 1: "fst ?S = Inr ()"
    by (simp add: ex_defs not_found_env_def op_defs up_defs)
  have 2: "registrations (trace (snd ?S)) = []"
    by (simp add: ex_defs not_found_env_def op_defs up_defs)
  have 3: "fs (snd (clone_or_pull_repository not_found_env default_config
             (snd (ensure_directory not_found_env ''/app/data'' mirror_world))))
           = mirror_fs"
    by (simp add: ex_defs not_found_env_def op_defs)
  have d: "SYNC_DIRECTORY default_config = ''/app/data''"
    by (simp add: default_config_def)
  have 4: "fst ?L = Inr 1"
    by (simp add: walk_mirror) (simp add: ex_defs not_found_env_def op_defs up_defs)
  then have 5: "?L = (Inr 1, snd ?L)"
    by (metis prod.collapse)
  have t: "uploaded_paths (trace mirror_world) = []"
    by (simp add: mirror_world_def)
  from files_uploaded_counts_attempts
         [of not_found_env default_config "os_walk mirror_fs ''/app/data''" 0 mirror_world
             1 "snd ?L"]
       1 5
  have "uploaded_paths (trace (snd ?L)) = [''/app/data/a.md''] \<and>
        last (trace (snd ?S)) = Log INFO ''Sync process completed. Files uploaded: {}'' [AInt 1]"
    by (simp add: 3 d acc_mirror t paths_of_def path_join_def endswith_def)
  with 1 2 5 show ?thesis by simp
qed

text \<open>
  The claim as stated fails when an upload raises: the loop ends at the first accepted
  candidate, and the second accepted candidate is neither uploaded nor counted.
\<close>

theorem files_uploaded_not_counted_after_raise:
  "accepted md_py_config (candidates (os_walk mirror_fs ''/app/data'')) =
     [(''/app/data'', ''a.md''), (''/app/data'', ''b.py'')] \<and>
   fst (walk_loop no_id_env md_py_config (os_walk mirror_fs ''/app/data'') 0 mirror_world) =
     Inl (KeyError ''id'') \<and>
   uploaded_paths (trace (snd (walk_loop no_id_env md_py_config
       (os_walk mirror_fs ''/app/data'') 0 mirror_world))) = [''/app/data/a.md'']"
proof -
  have 1: "accepted md_py_config (candidates (os_walk mirror_fs ''/app/data'')) =
     [(''/app/data'', ''a.md''), (''/app/data'', ''b.py'')]"
    by (simp add: cand_mirror accepted_def is_allowed_extension_def md_py_config_def
          default_config_def endswith_def)
  have 2: "fst (walk_loop no_id_env md_py_config (os_walk mirror_fs ''/app/data'') 0 mirror_world) =
     Inl (KeyError ''id'')"
    by (simp add: walk_mirror)
       (simp add: md_py_config_def ex_defs no_id_env_def op_defs up_defs)
  have 3: "uploaded_paths (trace (snd (walk_loop no_id_env md_py_config
       (os_walk mirror_fs ''/app/data'') 0 mirror_world))) = [''/app/data/a.md'']"
    by (simp add: walk_mirror)
       (simp add: md_py_config_def ex_defs no_id_env_def op_defs up_defs)
  from 1 2 3 show ?thesis by simp
qed

theorem scan_skips_git_witness:
  "is_allowed_extension any_config ''config'' \<and>
   uploaded_paths (trace mirror_world) = [] \<and>
   candidates (os_walk mirror_fs ''/app/data'') =
     [(''/app/data'', ''a.md''), (''/app/data'', ''b.py'')] \<and>
   uploaded_paths (trace (snd (sync_process quiet_env any_config mirror_world))) =
     [''/app/data/a.md'', ''/app/data/b.py''] \<and>
   \<not> contains ''/app/data/a.md'' ''.git'' \<and> \<not> contains ''/app/data/b.py'' ''.git''"
proof -
  have 1: "is_allowed_extension any_config ''config''"
    by (simp add: any_config_def is_allowed_extension_def ex_defs endswith_def)
  have 2: "uploaded_paths (trace mirror_world) = []"
    by (simp add: mirror_world_def)
  have 3: "uploaded_paths (trace (snd (sync_process quiet_env any_config mirror_world))) =
     [''/app/data/a.md'', ''/app/data/b.py'']"
    by (simp add: any_config_def ex_defs op_defs up_defs)
  from scan_skips_git [where tree = mirror_fs and d = "''/app/data''" and E = quiet_env
         and cfg = any_config and n = 0 and w = mirror_world] 2
  have "\<forall>p \<in> set (uploaded_paths (trace (snd (sync_process quiet_env any_config mirror_world)))).
      \<not> contains p ''.git''"
    by simp
  then have "\<not> contains ''/app/data/a.md'' ''.git'' \<and> \<not> contains ''/app/data/b.py'' ''.git''"
    unfolding 3 by simp
  with 1 2 3 cand_mirror show ?thesis by blast
qed

subsection \<open>Daemon Loop\<close>

lemma upload_files_sleeps [simp]:
  "sleeps (trace (snd (upload_files E cfg root files n w))) = sleeps (trace w)"
proof (induction files arbitrary: n w)
  case Nil
  show ?case by simp
next
  case (Cons f files)
  have "sleeps (trace (snd (upload_to_webui E cfg (path_join root f) w))) = sleeps (trace w)"
    by simp
  then show ?case
    by (cases "upload_to_webui E cfg (path_join root f) w")
       (auto simp: Cons Let_def split: sum.splits)
qed

lemma walk_loop_sleeps [simp]:
  "sleeps (trace (snd (walk_loop E cfg triples n w))) = sleeps (trace w)"
proof (induction triples arbitrary: n w)
  case Nil
  show ?case by simp
next
  case (Cons t triples)
  obtain root dirs files where t: "t = (root, dirs, files)" by (cases t) auto
  have "sleeps (trace (snd (upload_files E cfg root files n w))) = sleeps (trace w)"
    by simp
  then show ?case
    by (cases "upload_files E cfg root files n w")
       (auto simp: Cons t split: sum.splits)
qed





subsection \<open>Responses without a file identifier\<close>

lemma subscript_error: "subscript j k = Inl e \<Longrightarrow> \<not> is_RequestException e"
  by (cases j) (auto split: option.splits)

lemma upload_files_append:
  "upload_files E cfg root (pre @ post) n w =
     (case upload_files E cfg root pre n w of
        (Inl e, w') \<Rightarrow> (Inl e, w')
      | (Inr m, w') \<Rightarrow> upload_files E cfg root post m w')"
proof (induction pre arbitrary: n w)
  case Nil
  show ?case by simp
next
  case (Cons f pre)
  show ?case
    by (cases "upload_to_webui E cfg (path_join root f) w")
       (auto simp: Cons Let_def split: sum.splits)
qed

lemma walk_loop_append:
  "walk_loop E cfg (before @ after) n w =
     (case walk_loop E cfg before n w of
        (Inl e, w') \<Rightarrow> (Inl e, w')
      | (Inr m, w') \<Rightarrow> walk_loop E cfg after m w')"
proof (induction before arbitrary: n w)
  case Nil
  show ?case by simp
next
  case (Cons t before)
  obtain root dirs files where t: "t = (root, dirs, files)" by (cases t) auto
  show ?case
    by (cases "upload_files E cfg root files n w")
       (auto simp: Cons t split: sum.splits)
qed

lemma upload_raises:
  assumes "os_open E p w = Inr content"
    and "http E (trace w) (upload_request cfg p content) = Inr resp"
    and "\<not> (400 \<le> status_code resp \<and> status_code resp < 600)"
    and "(\<exists>j. parsed resp = Some j \<and> subscript j ''id'' = Inl e) \<or>
         (parsed resp = None \<and> legacy_json_error E \<and> e = JSONDecodeError)"
  shows "\<not> is_RequestException e"
    and "upload_to_webui E cfg p w =
           (Inl e, emit (Log INFO ''Upload successful: {}'' [AStr p])
                     (emit (Http (upload_request cfg p content)) w))"
proof -
  show n: "\<not> is_RequestException e"
    using assms(4) subscript_error by auto
  from assms(4) show "upload_to_webui E cfg p w =
           (Inl e, emit (Log INFO ''Upload successful: {}'' [AStr p])
                     (emit (Http (upload_request cfg p content)) w))"
  proof
    assume "\<exists>j. parsed resp = Some j \<and> subscript j ''id'' = Inl e"
    then obtain j where "parsed resp = Some j" "subscript j ''id'' = Inl e" by blast
    with assms(1-3) n show ?thesis
      using assms(2) [unfolded upload_request_def]
      by (simp add: upload_to_webui_def requests_post_def raise_for_status_def
            response_json_def upload_request_def Let_def)
  next
    assume "parsed resp = None \<and> legacy_json_error E \<and> e = JSONDecodeError"
    with assms(1-3) show ?thesis
      using assms(2) [unfolded upload_request_def]
      by (simp add: upload_to_webui_def requests_post_def raise_for_status_def
            response_json_def upload_request_def Let_def)
  qed
qed

lemma upload_catches_json_error:
  assumes "os_open E p w = Inr content"
    and "http E (trace w) (upload_request cfg p content) = Inr resp"
    and "\<not> (400 \<le> status_code resp \<and> status_code resp < 600)"
    and "parsed resp = None" "\<not> legacy_json_error E"
  shows "upload_to_webui E cfg p w =
           (Inr (), emit (Log ERROR ''Error uploading file {}: {}''
                            [AStr p, AExn RequestsJSONDecodeError])
                      (emit (Log INFO ''Upload successful: {}'' [AStr p])
                         (emit (Http (upload_request cfg p content)) w)))"
  using assms assms(2) [unfolded upload_request_def]
  by (auto simp: upload_to_webui_def requests_post_def raise_for_status_def
        response_json_def upload_request_def Let_def)

lemma sync_process_raises:
  assumes "ensure_directory E (SYNC_DIRECTORY cfg) w0 = (Inr u, w1)"
    and "clone_or_pull_repository E cfg w1 = (Inr synced, w2)"
    and "w3 = (if \<not> synced then emit (Log WARNING
                 ''Repository sync skipped. Proceeding with existing files.'' []) w2 else w2)"
    and "walk_loop E cfg (os_walk (fs w3) (SYNC_DIRECTORY cfg)) 0 w3 = (Inl e, w4)"
  shows "sync_process E cfg w0 =
           (Inl e, emit (Log ERROR ''Synchronization process failed: {}'' [AExn e]) w4)"
  using assms by (simp add: sync_process_def Let_def split: if_splits)

lemma main_iteration_contains:
  assumes "sync_process E cfg w = (Inl e, w')"
  shows "main_iteration E cfg w =
           time_sleep (SYNC_INTERVAL cfg)
             (emit (Log INFO ''Waiting {} seconds before next sync...''
                      [AInt (SYNC_INTERVAL cfg)])
                (emit (Log ERROR ''Error in sync loop: {}'' [AExn e]) w'))"
  using assms by (simp add: main_iteration_def)

text \<open>
  C10 (as amended). When the upload call of an accepted candidate returns a response with
  a status outside 400 to 599 whose JSON body yields no \<^verbatim>\<open>id\<close> (or, with a requests older
  than 2.27, whose body is not JSON), \<open>upload_to_webui\<close> raises an exception that is not a
  \<^verbatim>\<open>RequestException\<close>; \<open>sync_process\<close> raises it too, with nothing done after that upload
  but a log record, whatever files and directories remain; the iteration of the daemon
  loop logs it and goes on to the sleep. With requests 2.27 or newer a body that is not
  JSON raises a \<^verbatim>\<open>RequestException\<close>: \<open>upload_to_webui\<close> logs it and returns, and the loop
  goes on with the next file.
\<close>

theorem missing_id_aborts_cycle:
  assumes started: "ensure_directory E (SYNC_DIRECTORY cfg) w0 = (Inr u, w1)"
    and mirrored: "clone_or_pull_repository E cfg w1 = (Inr synced, w2)"
    and w3: "w3 = (if \<not> synced then emit (Log WARNING
                 ''Repository sync skipped. Proceeding with existing files.'' []) w2 else w2)"
    and scan: "os_walk (fs w3) (SYNC_DIRECTORY cfg) =
                 before @ (root, dirs, pre @ filename # rest) # after"
    and before: "walk_loop E cfg before 0 w3 = (Inr k, wa)"
    and pre: "upload_files E cfg root pre k wa = (Inr m, w)"
    and cand: "\<not> contains (path_join root filename) ''.git''"
    and acc: "is_allowed_extension cfg filename"
    and opened: "os_open E (path_join root filename) w = Inr content"
    and resp: "http E (trace w) (upload_request cfg (path_join root filename) content) = Inr resp"
    and status: "\<not> (400 \<le> status_code resp \<and> status_code resp < 600)"
    and w': "w' = emit (Log INFO ''Upload successful: {}'' [AStr (path_join root filename)])
                    (emit (Http (upload_request cfg (path_join root filename) content)) w)"
  shows "((\<exists>j. parsed resp = Some j \<and> subscript j ''id'' = Inl e) \<or>
          (parsed resp = None \<and> legacy_json_error E \<and> e = JSONDecodeError) \<longrightarrow>
            \<not> is_RequestException e \<and>
            upload_to_webui E cfg (path_join root filename) w = (Inl e, w') \<and>
            sync_process E cfg w0 =
              (Inl e, emit (Log ERROR ''Synchronization process failed: {}'' [AExn e]) w') \<and>
            main_iteration E cfg w0 =
              time_sleep (SYNC_INTERVAL cfg)
                (emit (Log INFO ''Waiting {} seconds before next sync...''
                         [AInt (SYNC_INTERVAL cfg)])
                   (emit (Log ERROR ''Error in sync loop: {}'' [AExn e])
                      (emit (Log ERROR ''Synchronization process failed: {}'' [AExn e]) w')))) \<and>
         (parsed resp = None \<and> \<not> legacy_json_error E \<longrightarrow>
            upload_to_webui E cfg (path_join root filename) w =
              (Inr (), emit (Log ERROR ''Error uploading file {}: {}''
                               [AStr (path_join root filename), AExn RequestsJSONDecodeError]) w') \<and>
            upload_files E cfg root (pre @ filename # rest) k wa =
              upload_files E cfg root rest (m + 1)
                (emit (Log ERROR ''Error uploading file {}: {}''
                         [AStr (path_join root filename), AExn RequestsJSONDecodeError]) w'))"
proof (intro conjI impI)
  assume bad: "(\<exists>j. parsed resp = Some j \<and> subscript j ''id'' = Inl e) \<or>
          (parsed resp = None \<and> legacy_json_error E \<and> e = JSONDecodeError)"
  show n: "\<not> is_RequestException e"
    by (rule upload_raises(1) [OF opened resp status bad])
  show up: "upload_to_webui E cfg (path_join root filename) w = (Inl e, w')"
    unfolding w' by (rule upload_raises(2) [OF opened resp status bad])
  have "upload_files E cfg root (pre @ filename # rest) k wa = (Inl e, w')"
    using pre up cand acc by (simp add: upload_files_append)
  then have "walk_loop E cfg (os_walk (fs w3) (SYNC_DIRECTORY cfg)) 0 w3 = (Inl e, w')"
    using before by (simp add: scan walk_loop_append)
  from sync_process_raises [OF started mirrored w3 this]
  show sp: "sync_process E cfg w0 =
              (Inl e, emit (Log ERROR ''Synchronization process failed: {}'' [AExn e]) w')" .
  show "main_iteration E cfg w0 =
              time_sleep (SYNC_INTERVAL cfg)
                (emit (Log INFO ''Waiting {} seconds before next sync...''
                         [AInt (SYNC_INTERVAL cfg)])
                   (emit (Log ERROR ''Error in sync loop: {}'' [AExn e])
                      (emit (Log ERROR ''Synchronization process failed: {}'' [AExn e]) w')))"
    by (rule main_iteration_contains [OF sp])
next
  assume "parsed resp = None \<and> \<not> legacy_json_error E"
  then have p: "parsed resp = None" and l: "\<not> legacy_json_error E" by simp_all
  show up: "upload_to_webui E cfg (path_join root filename) w =
              (Inr (), emit (Log ERROR ''Error uploading file {}: {}''
                               [AStr (path_join root filename), AExn RequestsJSONDecodeError]) w')"
    unfolding w' by (rule upload_catches_json_error [OF opened resp status p l])
  show "upload_files E cfg root (pre @ filename # rest) k wa =
              upload_files E cfg root rest (m + 1)
                (emit (Log ERROR ''Error uploading file {}: {}''
                         [AStr (path_join root filename), AExn RequestsJSONDecodeError]) w')"
    using pre up cand acc by (simp add: upload_files_append)
qed

theorem missing_id_aborts_cycle_witness:
  "os_walk (fs scan_world) (SYNC_DIRECTORY md_py_config) =
     [] @ (''/app/data'', [''.git''], [] @ ''a.md'' # [''b.py''])
        # [(''/app/data/.git'', [], [''config''])] \<and>
   \<not> contains (path_join ''/app/data'' ''a.md'') ''.git'' \<and>
   is_allowed_extension md_py_config ''a.md'' \<and>
   os_open no_id_env (path_join ''/app/data'' ''a.md'') scan_world = Inr ''alpha'' \<and>
   http no_id_env (trace scan_world)
       (upload_request md_py_config (path_join ''/app/data'' ''a.md'') ''alpha'')
     = Inr (Response 200 (Some (JObj [(''name'', JStr ''stored'')]))) \<and>
   subscript (JObj [(''name'', JStr ''stored'')]) ''id'' = Inl (KeyError ''id'') \<and>
   \<not> is_RequestException (KeyError ''id'') \<and>
   fst (upload_to_webui no_id_env md_py_config (path_join ''/app/data'' ''a.md'') scan_world)
     = Inl (KeyError ''id'') \<and>
   fst (sync_process no_id_env md_py_config mirror_world) = Inl (KeyError ''id'') \<and>
   uploaded_paths (trace (snd (sync_process no_id_env md_py_config mirror_world)))
     = [''/app/data/a.md''] \<and>
   fst (main_iteration no_id_env md_py_config mirror_world) = Inr () \<and>
   http html_env (trace scan_world)
       (upload_request md_py_config (path_join ''/app/data'' ''a.md'') ''alpha'')
     = Inr (Response 200 None) \<and>
   \<not> legacy_json_error html_env \<and>
   fst (upload_to_webui html_env md_py_config (path_join ''/app/data'' ''a.md'') scan_world)
     = Inr ()"
proof -
  let ?d = "SYNC_DIRECTORY md_py_config"
  let ?p = "path_join ''/app/data'' ''a.md''"
  let ?skip = "Log WARNING ''Repository sync skipped. Proceeding with existing files.'' []"
  let ?up = "emit (Log INFO ''Upload successful: {}'' [AStr ?p])
               (emit (Http (upload_request md_py_config ?p ''alpha'')) scan_world)"
  have started: "ensure_directory E ?d mirror_world =
                   (Inr (), snd (ensure_directory E ?d mirror_world))"
    if "makedirs_fault E = (\<lambda>h p. None)" for E
    using that by (simp add: md_py_config_def ex_defs op_defs)
  have mirrored: "clone_or_pull_repository E md_py_config (snd (ensure_directory E ?d mirror_world))
      = (Inr False, snd (clone_or_pull_repository E md_py_config
                           (snd (ensure_directory E ?d mirror_world))))" for E
    by (simp add: md_py_config_def ex_defs op_defs)
  have w3: "scan_world =
      (if \<not> False then emit ?skip (snd (clone_or_pull_repository E md_py_config
                                            (snd (ensure_directory E ?d mirror_world))))
       else snd (clone_or_pull_repository E md_py_config
                   (snd (ensure_directory E ?d mirror_world))))" for E
    by (simp add: scan_world_def md_py_config_def ex_defs op_defs)
  have scan: "os_walk (fs scan_world) ?d =
     [] @ (''/app/data'', [''.git''], [] @ ''a.md'' # [''b.py''])
        # [(''/app/data/.git'', [], [''config''])]"
    by (simp add: scan_world_def md_py_config_def default_config_def walk_mirror)
  have before: "walk_loop E md_py_config [] 0 scan_world = (Inr 0, scan_world)" for E
    by simp
  have pre: "upload_files E md_py_config ''/app/data'' [] 0 scan_world = (Inr 0, scan_world)" for E
    by simp
  have cand: "\<not> contains ?p ''.git''"
    by (simp add: path_join_def endswith_def)
  have acc: "is_allowed_extension md_py_config ''a.md''"
    by (simp add: is_allowed_extension_def md_py_config_def default_config_def endswith_def)
  have opened: "os_open E ?p scan_world = Inr ''alpha''"
    if "open_denied E = (\<lambda>h p. False)" for E
    using that
    by (simp add: os_open_def scan_world_def mirror_fs_def resolve_def components_def
          path_join_def endswith_def)
  have resp: "http no_id_env (trace scan_world) (upload_request md_py_config ?p ''alpha'')
     = Inr (Response 200 (Some (JObj [(''name'', JStr ''stored'')])))"
    by (simp add: no_id_env_def quiet_env_def)
  have resp': "http html_env (trace scan_world) (upload_request md_py_config ?p ''alpha'')
     = Inr (Response 200 None)"
    by (simp add: html_env_def quiet_env_def)
  have status: "\<not> (400 \<le> status_code (Response 200 b) \<and> status_code (Response 200 b) < 600)" for b
    by simp
  have sub: "subscript (JObj [(''name'', JStr ''stored'')]) ''id'' = Inl (KeyError ''id'')"
    by simp
  have leg: "\<not> legacy_json_error html_env"
    by (simp add: html_env_def quiet_env_def)
  have f1: "makedirs_fault no_id_env = (\<lambda>h p. None)" "open_denied no_id_env = (\<lambda>h p. False)"
    by (simp_all add: no_id_env_def quiet_env_def)
  have f2: "makedirs_fault html_env = (\<lambda>h p. None)" "open_denied html_env = (\<lambda>h p. False)"
    by (simp_all add: html_env_def quiet_env_def)
  have i: "0 \<le> SYNC_INTERVAL md_py_config"
    by (simp add: md_py_config_def default_config_def)
  from missing_id_aborts_cycle
         [OF started [OF f1(1)] mirrored w3 scan before pre cand acc opened [OF f1(2)] resp
             status refl, of "KeyError ''id''"] sub
  have A: "\<not> is_RequestException (KeyError ''id'') \<and>
           upload_to_webui no_id_env md_py_config ?p scan_world = (Inl (KeyError ''id''), ?up) \<and>
           sync_process no_id_env md_py_config mirror_world =
             (Inl (KeyError ''id''),
              emit (Log ERROR ''Synchronization process failed: {}'' [AExn (KeyError ''id'')]) ?up) \<and>
           main_iteration no_id_env md_py_config mirror_world =
             time_sleep (SYNC_INTERVAL md_py_config)
               (emit (Log INFO ''Waiting {} seconds before next sync...''
                        [AInt (SYNC_INTERVAL md_py_config)])
                  (emit (Log ERROR ''Error in sync loop: {}'' [AExn (KeyError ''id'')])
                     (emit (Log ERROR ''Synchronization process failed: {}''
                              [AExn (KeyError ''id'')]) ?up)))"
    by simp
  from missing_id_aborts_cycle
         [OF started [OF f2(1)] mirrored w3 scan before pre cand acc opened [OF f2(2)] resp'
             status refl, of "KeyError ''id''"] leg
  have B: "upload_to_webui html_env md_py_config ?p scan_world =
             (Inr (), emit (Log ERROR ''Error uploading file {}: {}''
                              [AStr ?p, AExn RequestsJSONDecodeError])
                        (emit (Log INFO ''Upload successful: {}'' [AStr ?p])
                           (emit (Http (upload_request md_py_config ?p ''alpha'')) scan_world)))"
    by simp
  have C: "uploaded_paths (trace (snd (sync_process no_id_env md_py_config mirror_world)))
     = [''/app/data/a.md'']"
    using A by (simp add: scan_world_def upload_request_def path_join_def endswith_def)
  have D: "fst (main_iteration no_id_env md_py_config mirror_world) = Inr ()"
    using A i by (simp add: time_sleep_def)
  from scan cand acc opened [OF f1(2)] resp sub A B C D resp' leg
  show ?thesis by simp
qed

text \<open>
  The claim as stated fails for a body that is not JSON, with requests 2.27 or newer: the
  upload does not raise, and the cycle uploads the remaining file and completes.
\<close>

theorem invalid_json_is_caught:
  "\<not> legacy_json_error html_env \<and>
   http html_env (trace scan_world) (upload_request md_py_config ''/app/data/a.md'' ''alpha'')
     = Inr (Response 200 None) \<and>
   parsed (Response 200 None) = None \<and>
   fst (upload_to_webui html_env md_py_config ''/app/data/a.md'' scan_world) = Inr () \<and>
   fst (sync_process html_env md_py_config mirror_world) = Inr () \<and>
   uploaded_paths (trace (snd (sync_process html_env md_py_config mirror_world))) =
     [''/app/data/a.md'', ''/app/data/b.py'']"
  by (simp add: md_py_config_def scan_world_def ex_defs html_env_def op_defs up_defs
        upload_request_def)

end
